theory Spec2Isabelle
  imports Main
begin

section \<open>Python strings\<close>

text \<open>
  A Python \<open>str\<close> is modelled as a \<open>string\<close>: one \<open>char\<close> stands for one character of the
  Python string, so the model covers the strings whose code points are below 256.
\<close>

definition py_startswith :: "string \<Rightarrow> string \<Rightarrow> bool" where
  \<comment> \<open>\<open>s.startswith(p)\<close>\<close>
  "py_startswith s p = (take (length p) s = p)"

fun py_in :: "string \<Rightarrow> string \<Rightarrow> bool" where
  \<comment> \<open>\<open>p in s\<close> on strings: \<open>p\<close> occurs in \<open>s\<close> as a contiguous run\<close>
  "py_in p [] = (p = [])"
| "py_in p (c # cs) = (py_startswith (c # cs) p \<or> py_in p cs)"

fun py_join :: "string \<Rightarrow> string list \<Rightarrow> string" where
  \<comment> \<open>\<open>sep.join(xs)\<close>\<close>
  "py_join sep [] = []"
| "py_join sep [x] = x"
| "py_join sep (x # y # ys) = x @ sep @ py_join sep (y # ys)"

fun py_split :: "char \<Rightarrow> string \<Rightarrow> string list" where
  \<comment> \<open>\<open>s.split(sep)\<close> for a separator of one character: never an empty list\<close>
  "py_split sep [] = [[]]"
| "py_split sep (c # cs) =
     (if c = sep then [] # py_split sep cs
      else (case py_split sep cs of
              [] \<Rightarrow> [[c]]
            | w # ws \<Rightarrow> (c # w) # ws))"

definition py_isspace :: "char \<Rightarrow> bool" where
  \<comment> \<open>the characters below 256 that \<open>str.strip()\<close> removes: tab to carriage return,
      the separators 28 to 31, the space, NEL and the no-break space\<close>
  "py_isspace c =
     (let n = (of_char c :: nat)
      in (9 \<le> n \<and> n \<le> 13) \<or> (28 \<le> n \<and> n \<le> 32) \<or> n = 133 \<or> n = 160)"

definition py_strip :: "string \<Rightarrow> string" where
  \<comment> \<open>\<open>s.strip()\<close>\<close>
  "py_strip s = rev (dropWhile py_isspace (rev (dropWhile py_isspace s)))"

definition digit_char :: "nat \<Rightarrow> char" where
  "digit_char d = char_of (48 + d)"

fun nat_digits :: "nat \<Rightarrow> string" where
  "nat_digits n = (if n < 10 then [digit_char n] else nat_digits (n div 10) @ [digit_char (n mod 10)])"

declare nat_digits.simps [simp del]

definition int_repr :: "int \<Rightarrow> string" where
  \<comment> \<open>\<open>int.__repr__\<close>: decimal digits, a minus sign for a negative number\<close>
  "int_repr i = (if i < 0 then CHR ''-'' # nat_digits (nat (- i)) else nat_digits (nat i))"

section \<open>Values given on the command line\<close>

text \<open>
  \<open>fire.Fire\<close> hands each command-line argument to the method as the Python literal it
  reads as: \<open>delete 42\<close> passes the integer 42, \<open>delete ""\<close> the empty string. The model
  keeps strings, integers, booleans and \<open>None\<close>.
\<close>

datatype cli_value = CStr string | CInt int | CBool bool | CNone

fun truthy :: "cli_value \<Rightarrow> bool" where
  "truthy (CStr s) = (s \<noteq> [])"
| "truthy (CInt i) = (i \<noteq> 0)"
| "truthy (CBool b) = b"
| "truthy CNone = False"

fun py_str :: "cli_value \<Rightarrow> string" where
  \<comment> \<open>\<open>str(x)\<close>, also what an f-string writes for \<open>{x}\<close>\<close>
  "py_str (CStr s) = s"
| "py_str (CInt i) = int_repr i"
| "py_str (CBool b) = (if b then ''True'' else ''False'')"
| "py_str CNone = ''None''"

section \<open>Python values and \<open>json.dumps\<close>\<close>

text \<open>
  The values that \<open>json.dumps\<close> serialises: \<open>None\<close>, booleans, integers, floats, strings,
  lists and dictionaries whose keys are strings, integers, booleans, floats or \<open>None\<close>. A
  dictionary is the list of its items in insertion order, the order in which Python
  iterates over it. Any other object makes \<open>json.dumps\<close> raise \<open>TypeError\<close> and is outside
  this type. A finite float carries the text that \<open>float.__repr__\<close> gives for it; the
  embedding does not compute that text.
\<close>

datatype pyfloat = FloatNaN | FloatInf | FloatNegInf | FloatFinite string

datatype pykey = KStr string | KInt int | KBool bool | KNone | KFloat pyfloat

datatype pyval =
    PyNone
  | PyBool bool
  | PyInt int
  | PyFloat pyfloat
  | PyStr string
  | PyList "pyval list"
  | PyDict "(pykey \<times> pyval) list"

definition hex_digit :: "nat \<Rightarrow> char" where
  "hex_digit d = (if d < 10 then char_of (48 + d) else char_of (87 + d))"

definition hex4 :: "nat \<Rightarrow> string" where
  \<comment> \<open>\<open>'{0:04x}'.format(n)\<close> for \<open>n < 0x10000\<close>\<close>
  "hex4 n = [hex_digit (n div 4096 mod 16), hex_digit (n div 256 mod 16),
             hex_digit (n div 16 mod 16), hex_digit (n mod 16)]"

definition escape_char :: "char \<Rightarrow> string" where
  \<comment> \<open>the replacement of one character in \<open>py_encode_basestring_ascii\<close>: the pattern
      \<open>ESCAPE_ASCII\<close> matches a backslash, a double quote and whatever is not between the
      space and the tilde; \<open>ESCAPE_DCT\<close> names seven of them, the others become \<open>\uXXXX\<close>\<close>
  "escape_char c =
     (if c = CHR 0x5C then [CHR 0x5C, CHR 0x5C]
      else if c = CHR 0x22 then [CHR 0x5C, CHR 0x22]
      else if 32 \<le> (of_char c :: nat) \<and> (of_char c :: nat) \<le> 126 then [c]
      else if c = CHR 0x08 then [CHR 0x5C, CHR ''b'']
      else if c = CHR 0x0C then [CHR 0x5C, CHR ''f'']
      else if c = CHR 0x0A then [CHR 0x5C, CHR ''n'']
      else if c = CHR 0x0D then [CHR 0x5C, CHR ''r'']
      else if c = CHR 0x09 then [CHR 0x5C, CHR ''t'']
      else [CHR 0x5C, CHR ''u''] @ hex4 (of_char c))"

definition py_encode_basestring_ascii :: "string \<Rightarrow> string" where
  "py_encode_basestring_ascii s = [CHR 0x22] @ concat (map escape_char s) @ [CHR 0x22]"

fun floatstr :: "pyfloat \<Rightarrow> string" where
  "floatstr FloatNaN = ''NaN''"
| "floatstr FloatInf = ''Infinity''"
| "floatstr FloatNegInf = ''-Infinity''"
| "floatstr (FloatFinite r) = r"

fun key_text :: "pykey \<Rightarrow> string" where
  \<comment> \<open>the string a dictionary key is turned into before it is encoded\<close>
  "key_text (KStr s) = s"
| "key_text (KFloat f) = floatstr f"
| "key_text (KBool b) = (if b then ''true'' else ''false'')"
| "key_text KNone = ''null''"
| "key_text (KInt i) = int_repr i"

definition newline_indent :: "nat \<Rightarrow> nat \<Rightarrow> string" where
  \<comment> \<open>\<open>'\n' + _indent * _current_indent_level\<close> with \<open>_indent = ' ' * indent\<close>\<close>
  "newline_indent indent lvl = CHR 0x0A # replicate (indent * lvl) (CHR '' '')"

text \<open>
  \<open>_iterencode\<close>, \<open>_iterencode_list\<close> and \<open>_iterencode_dict\<close> of \<open>json.encoder\<close>, for an integer
  \<open>indent\<close> and the separators \<open>','\<close> and \<open>': '\<close> that \<open>json.dumps\<close> uses with it. The
  text is the concatenation of the chunks the generators yield. The two loops take the
  indentation level of their items; \<open>buf\<close> is what precedes the next list item, \<open>first\<close>
  tells whether a dictionary item is the first.
\<close>

fun iterencode :: "nat \<Rightarrow> pyval \<Rightarrow> nat \<Rightarrow> string"
  and iterencode_list :: "nat \<Rightarrow> string \<Rightarrow> pyval list \<Rightarrow> nat \<Rightarrow> string"
  and iterencode_dict :: "nat \<Rightarrow> bool \<Rightarrow> (pykey \<times> pyval) list \<Rightarrow> nat \<Rightarrow> string"
where
  "iterencode indent (PyStr s) lvl = py_encode_basestring_ascii s"
| "iterencode indent PyNone lvl = ''null''"
| "iterencode indent (PyBool b) lvl = (if b then ''true'' else ''false'')"
| "iterencode indent (PyInt i) lvl = int_repr i"
| "iterencode indent (PyFloat f) lvl = floatstr f"
| "iterencode indent (PyList []) lvl = ''[]''"
| "iterencode indent (PyList (v # vs)) lvl =
     iterencode_list indent (''['' @ newline_indent indent (lvl + 1)) (v # vs) (lvl + 1)
     @ newline_indent indent lvl @ '']''"
| "iterencode indent (PyDict []) lvl = ''{}''"
| "iterencode indent (PyDict (kv # kvs)) lvl =
     ''{'' @ newline_indent indent (lvl + 1)
     @ iterencode_dict indent True (kv # kvs) (lvl + 1)
     @ newline_indent indent lvl @ ''}''"
| "iterencode_list indent buf [] lvl = []"
| "iterencode_list indent buf (v # vs) lvl =
     buf @ iterencode indent v lvl
     @ iterencode_list indent ('','' @ newline_indent indent lvl) vs lvl"
| "iterencode_dict indent first [] lvl = []"
| "iterencode_dict indent first ((k, v) # kvs) lvl =
     (if first then [] else '','' @ newline_indent indent lvl)
     @ py_encode_basestring_ascii (key_text k) @ '': ''
     @ iterencode indent v lvl
     @ iterencode_dict indent False kvs lvl"

definition dumps :: "pyval \<Rightarrow> nat \<Rightarrow> string" where
  \<comment> \<open>\<open>json.dumps(obj, indent=indent)\<close>\<close>
  "dumps obj indent = iterencode indent obj 0"

definition format_as_json :: "(string \<times> pyval) list \<Rightarrow> string" where
  \<comment> \<open>\<open>format_as_json(**kwargs)\<close>: \<open>kwargs\<close> is the dictionary of the keyword arguments
      in the order of the call\<close>
  "format_as_json kwargs = dumps (PyDict (map (\<lambda>(k, v). (KStr k, v)) kwargs)) 4"


subsection \<open>Reading the keys back from the text\<close>

text \<open>
  How a reader finds the top-level keys in the text that \<open>format_as_json\<close> returns: a key
  starts a line of its own, after exactly four spaces, as a JSON string. The reader goes
  through the text once; it counts the spaces at the start of each line, and inside a key
  it undoes the escapes of JSON. It is the observation the statements about the keys are
  made with, and no part of the program.
\<close>

datatype reader =
    Mid
  | Indent nat
  | InKey string
  | InKeyEsc string
  | InKeyHex string "nat list"

definition hex_val :: "char \<Rightarrow> nat" where
  "hex_val c =
     (let n = (of_char c :: nat)
      in if 48 \<le> n \<and> n \<le> 57 then n - 48
         else if 97 \<le> n \<and> n \<le> 102 then n - 87
         else if 65 \<le> n \<and> n \<le> 70 then n - 55
         else 0)"

definition unescape :: "char \<Rightarrow> char" where
  "unescape c =
     (if c = CHR ''b'' then CHR 0x08
      else if c = CHR ''f'' then CHR 0x0C
      else if c = CHR ''n'' then CHR 0x0A
      else if c = CHR ''r'' then CHR 0x0D
      else if c = CHR ''t'' then CHR 0x09
      else c)"

fun read_char :: "reader \<Rightarrow> char \<Rightarrow> reader \<times> string list" where
  "read_char Mid c = (if c = CHR 0x0A then Indent 0 else Mid, [])"
| "read_char (Indent k) c =
     (if c = CHR '' '' then (Indent (Suc k), [])
      else if c = CHR 0x22 \<and> k = 4 then (InKey [], [])
      else if c = CHR 0x0A then (Indent 0, [])
      else (Mid, []))"
| "read_char (InKey acc) c =
     (if c = CHR 0x22 then (Mid, [rev acc])
      else if c = CHR 0x5C then (InKeyEsc acc, [])
      else (InKey (c # acc), []))"
| "read_char (InKeyEsc acc) c =
     (if c = CHR ''u'' then (InKeyHex acc [], [])
      else (InKey (unescape c # acc), []))"
| "read_char (InKeyHex acc ds) c =
     (case ds @ [hex_val c] of
        [h1, h2, h3, h4] \<Rightarrow> (InKey (char_of (h1 * 4096 + h2 * 256 + h3 * 16 + h4) # acc), [])
      | ds' \<Rightarrow> (InKeyHex acc ds', []))"

fun read_text :: "reader \<Rightarrow> string \<Rightarrow> reader \<times> string list" where
  "read_text st [] = (st, [])"
| "read_text st (c # cs) =
     (let (st', ks) = read_char st c; (st'', ks') = read_text st' cs
      in (st'', ks @ ks'))"

definition top_level_keys :: "string \<Rightarrow> string list" where
  "top_level_keys text = snd (read_text Mid text)"

subsection \<open>Where the reader cannot start a key\<close>

text \<open>
  Two notions for the statements about the reader. A plain character is neither a newline,
  nor a space, nor a double quote. The reader is calm when it is in the middle of a line,
  or at the start of one after a number of spaces other than four: in these states a
  double quote does not start a key.
\<close>

definition plain_char :: "char \<Rightarrow> bool" where
  "plain_char c = (c \<noteq> CHR 0x0A \<and> c \<noteq> CHR '' '' \<and> c \<noteq> CHR 0x22)"

fun calm :: "reader \<Rightarrow> bool" where
  "calm Mid = True"
| "calm (Indent k) = (k \<noteq> 4)"
| "calm _ = False"

subsection \<open>The text of a float\<close>

text \<open>
  \<open>float.__repr__\<close> writes a finite float with digits, a point, an exponent mark and signs.
  The statements that read the text of \<open>json.dumps\<close> back assume this of the text that
  a float value carries. A float that is a dictionary key is written inside a JSON string,
  so nothing is assumed of its text.
\<close>

definition float_text_ok :: "string \<Rightarrow> bool" where
  "float_text_ok r = (r \<noteq> [] \<and> list_all (\<lambda>c. c \<in> set ''0123456789.e+-'') r)"

fun float_ok :: "pyfloat \<Rightarrow> bool" where
  "float_ok (FloatFinite r) = float_text_ok r"
| "float_ok _ = True"

fun floats_ok :: "pyval \<Rightarrow> bool"
  and floats_ok_list :: "pyval list \<Rightarrow> bool"
  and floats_ok_dict :: "(pykey \<times> pyval) list \<Rightarrow> bool"
where
  "floats_ok (PyFloat f) = float_ok f"
| "floats_ok (PyList vs) = floats_ok_list vs"
| "floats_ok (PyDict kvs) = floats_ok_dict kvs"
| "floats_ok PyNone = True"
| "floats_ok (PyBool b) = True"
| "floats_ok (PyInt i) = True"
| "floats_ok (PyStr s) = True"
| "floats_ok_list [] = True"
| "floats_ok_list (v # vs) = (floats_ok v \<and> floats_ok_list vs)"
| "floats_ok_dict [] = True"
| "floats_ok_dict ((k, v) # kvs) = (floats_ok v \<and> floats_ok_dict kvs)"

definition kwargs_floats_ok :: "(string \<times> pyval) list \<Rightarrow> bool" where
  "kwargs_floats_ok kwargs = list_all (\<lambda>(k, v). floats_ok v) kwargs"

section \<open>The character counting tool\<close>

definition count_characters :: "string \<Rightarrow> int" where
  \<comment> \<open>Modelled from the spec: \<open>count_characters\<close> is imported by \<open>agent.py\<close> from the package
      \<open>adk_short_bot.tools\<close>, but the module that defines it is not among the sources. The
      spec's contract: given a text string, returns its length as a non-negative integer.\<close>
  "count_characters text = int (length text)"

section \<open>Exceptions, the remote SDK and what a run does\<close>

text \<open>
  An exception carries its class as far as the handlers of \<open>remote.py\<close> tell classes
  apart, the text that a handler writes for \<open>e.code()\<close>, its \<open>message\<close> attribute and the
  text \<open>str(e)\<close>.
  \<open>FailedPrecondition\<close> and \<open>NotFound\<close> are subclasses of \<open>GoogleAPICallError\<close>; every
  other subclass of it is kept as \<open>GoogleAPICallError\<close>, every other exception as
  \<open>OtherException\<close>.
\<close>

datatype exn_class = FailedPrecondition | NotFound | GoogleAPICallError | OtherException

datatype exn = Exn (exn_cls: exn_class) (exn_code: string) (exn_message: string) (exn_text: string)

text \<open>
  The SDK is outside the repository: the model takes its answers as parameters. A call
  either returns or raises. A response stream is the list of chunks it yields, and the
  exception that ends it when it does not close normally.
\<close>

datatype sdk_call =
    VertexaiInit "string option" "string option" "string option"
  | EnginesCreate string string string "string list"
  | EnginesDelete string bool
  | EnginesGet string
  | StreamQuery string cli_value string cli_value

text \<open>
  What a run does, in order: text written to the standard output, text written to the
  error stream, and calls into the SDK. \<open>StdoutValue v\<close> is \<open>print(v, end="", flush=True)\<close>:
  the text of the value \<open>v\<close> on the standard output, with no newline after it.
  \<open>Traceback e\<close> is the traceback that \<open>traceback.print_exc()\<close> writes to the error stream.
\<close>

datatype event =
    Stdout string
  | Stderr string
  | StdoutValue pyval
  | Traceback exn
  | Sdk sdk_call

definition print :: "string \<Rightarrow> event" where
  \<comment> \<open>\<open>print(s)\<close>\<close>
  "print s = Stdout (s @ [CHR 0x0A])"

definition eprint :: "string \<Rightarrow> event" where
  \<comment> \<open>\<open>print(s, file=sys.stderr)\<close>\<close>
  "eprint s = Stderr (s @ [CHR 0x0A])"

text \<open>
  How a call can end: it returns, the process exits with a status, or an exception leaves
  it. The methods below handle every exception of the SDK and return; \<open>__init__\<close> gives
  the status of its exit beside the manager.
\<close>

datatype ending = Returns | Exits nat | Raises exn

section \<open>The deployment manager\<close>

text \<open>
  The fields of an \<open>AgentManager\<close> hold what \<open>os.getenv\<close> returned: \<open>None\<close> for a variable
  that is not set. An f-string writes \<open>None\<close> as the text \<open>None\<close>.
\<close>

record AgentManager =
  project_id :: "string option"
  location :: "string option"
  bucket :: "string option"
  agent_package_name :: "string option"
  agent_display_name :: "string option"
  agent_description :: string
  agent_requirements :: "string list"

record sdk =
  vertexai_init :: "string option \<Rightarrow> string option \<Rightarrow> string option \<Rightarrow> exn option"
  engines_create :: "string \<Rightarrow> string \<Rightarrow> string \<Rightarrow> string list \<Rightarrow> exn + string"
  engines_delete :: "string \<Rightarrow> bool \<Rightarrow> exn option"
  engines_get :: "string \<Rightarrow> exn + string"
  stream_query :: "string \<Rightarrow> cli_value \<Rightarrow> string \<Rightarrow> cli_value \<Rightarrow> exn + pyval list \<times> exn option"

fun fmt_opt :: "string option \<Rightarrow> string" where
  \<comment> \<open>what an f-string writes for a value that is a string or \<open>None\<close>\<close>
  "fmt_opt None = ''None''"
| "fmt_opt (Some s) = s"

fun env_truthy :: "string option \<Rightarrow> bool" where
  "env_truthy None = False"
| "env_truthy (Some s) = (s \<noteq> [])"

definition getenv_default :: "(string \<rightharpoonup> string) \<Rightarrow> string \<Rightarrow> string \<Rightarrow> string" where
  \<comment> \<open>\<open>os.getenv(key, default)\<close>\<close>
  "getenv_default env key dflt = (case env key of None \<Rightarrow> dflt | Some v \<Rightarrow> v)"

definition parse_requirements :: "string \<Rightarrow> string list" where
  \<comment> \<open>\<open>[req.strip() for req in agent_requirements_str.split(',')]\<close>\<close>
  "parse_requirements agent_requirements_str =
     map py_strip (py_split (CHR '','') agent_requirements_str)"

text \<open>
  \<open>AgentManager.__init__\<close>. The environment \<open>env\<close> is what \<open>os.getenv\<close> reads once
  \<open>load_dotenv()\<close> has run. The result is the manager, or the status of \<open>sys.exit\<close>.
\<close>

definition init :: "(string \<rightharpoonup> string) \<Rightarrow> sdk \<Rightarrow> event list \<times> (nat + AgentManager)" where
  "init env sdk =
     (let self = \<lparr>project_id = env ''GOOGLE_CLOUD_PROJECT'',
                  location = env ''GOOGLE_CLOUD_LOCATION'',
                  bucket = env ''GOOGLE_CLOUD_STAGING_BUCKET'',
                  agent_package_name = env ''AGENT_PACKAGE_NAME'',
                  agent_display_name = env ''AGENT_DISPLAY_NAME'',
                  agent_description = getenv_default env ''AGENT_DESCRIPTION'' [],
                  agent_requirements = parse_requirements
                    (getenv_default env ''AGENT_REQUIREMENTS''
                       ''google-cloud-aiplatform[adk,agent_engines]'')\<rparr>;
          required_vars =
            [(''GOOGLE_CLOUD_PROJECT'', project_id self),
             (''GOOGLE_CLOUD_LOCATION'', location self),
             (''GOOGLE_CLOUD_STAGING_BUCKET'', bucket self),
             (''AGENT_PACKAGE_NAME'', agent_package_name self),
             (''AGENT_DISPLAY_NAME'', agent_display_name self)];
          missing_vars = map fst (filter (\<lambda>(key, value). \<not> env_truthy value) required_vars)
      in if missing_vars \<noteq> [] then
           ([eprint (''Error: Missing required environment variables: ''
                     @ py_join '', '' missing_vars)], Inl 1)
         else
           (case vertexai_init sdk (project_id self) (location self) (bucket self) of
              None \<Rightarrow>
                ([print ''Initializing Vertex AI...'',
                  Sdk (VertexaiInit (project_id self) (location self) (bucket self)),
                  print (''   Project: '' @ fmt_opt (project_id self)),
                  print (''   Location: '' @ fmt_opt (location self)),
                  print (''   Staging Bucket: '' @ fmt_opt (bucket self) @ [CHR 0x0A])],
                 Inr self)
            | Some e \<Rightarrow>
                ([print ''Initializing Vertex AI...'',
                  Sdk (VertexaiInit (project_id self) (location self) (bucket self)),
                  eprint (''Error initializing Vertex AI: '' @ exn_text e)],
                 Inl 1)))"

definition get_full_resource_name :: "AgentManager \<Rightarrow> cli_value \<Rightarrow> string" where
  \<comment> \<open>\<open>AgentManager._get_full_resource_name\<close>\<close>
  "get_full_resource_name self engine_id =
     (let engine_id = py_str engine_id
      in if py_in ''projects/'' engine_id then engine_id
         else ''projects/'' @ fmt_opt (project_id self) @ ''/locations/''
              @ fmt_opt (location self) @ ''/reasoningEngines/'' @ engine_id)"

subsection \<open>create\<close>

text \<open>
  \<open>create\<close> reads four names that are neither parameters nor locals: Python looks them up
  among the globals of the module when the call is evaluated, and raises \<open>NameError\<close> for
  a name that is not bound. \<open>globals\<close> gives the text bound to a global name.
  At module level \<open>remote.py\<close> binds the modules it imports and the class \<open>AgentManager\<close>,
  and nothing else: \<open>remote_globals\<close> binds no name to a text.
\<close>

definition load_global :: "(string \<rightharpoonup> string) \<Rightarrow> string \<Rightarrow> exn + string" where
  "load_global globals name =
     (case globals name of
        None \<Rightarrow> Inl (Exn OtherException [] []
                      (''name '' @ [CHR 0x27] @ name @ [CHR 0x27] @ '' is not defined''))
      | Some v \<Rightarrow> Inr v)"

definition remote_globals :: "string \<rightharpoonup> string" where
  "remote_globals = Map.empty"

definition last_segment :: "string \<Rightarrow> string" where
  \<comment> \<open>\<open>name.split('/')[-1]\<close>; the list \<open>split\<close> returns is never empty\<close>
  "last_segment name = (case rev (py_split (CHR ''/'') name) of [] \<Rightarrow> [] | seg # _ \<Rightarrow> seg)"

definition is_api_error :: "exn \<Rightarrow> bool" where
  \<comment> \<open>\<open>isinstance(e, GoogleAPICallError)\<close>\<close>
  "is_api_error e = (exn_cls e \<noteq> OtherException)"

definition create_handler :: "exn \<Rightarrow> event list" where
  "create_handler e =
     (if is_api_error e then
        [eprint ([CHR 0x0A] @ ''Error deploying agent: API call failed with status '' @ exn_code e),
         eprint (''Details: '' @ exn_message e)]
      else
        [eprint ([CHR 0x0A] @ ''An unexpected error occurred during deployment: '' @ exn_text e)])"

definition create :: "(string \<rightharpoonup> string) \<Rightarrow> AgentManager \<Rightarrow> sdk \<Rightarrow> bool \<Rightarrow> event list \<times> ending" where
  \<comment> \<open>\<open>importable\<close>: whether \<open>from adk_short_bot.agent import root_agent\<close> succeeds;
      building the \<open>AdkApp\<close> object is local and is taken to succeed\<close>
  "create globals self sdk importable =
     (if \<not> importable then
        ([eprint (''Error: Could not import '' @ [CHR 0x27] @ ''root_agent'' @ [CHR 0x27]
                  @ '' from '' @ [CHR 0x27] @ ''adk_short_bot.agent'' @ [CHR 0x27] @ ''.''),
          eprint ''Ensure the agent package is in the correct path and installed in editable mode (pip install -e .).''],
         Returns)
      else
        (let pre = [print ''Packaging agent...'', print ''Deploying agent to Vertex AI...''];
             failed = (\<lambda>evs e. (pre @ evs @ create_handler e, Returns))
         in case load_global globals ''AGENT_DISPLAY_NAME'' of
              Inl e \<Rightarrow> failed [] e
            | Inr display_name \<Rightarrow>
         (case load_global globals ''AGENT_DESCRIPTION'' of
              Inl e \<Rightarrow> failed [] e
            | Inr description \<Rightarrow>
         (case load_global globals ''AGENT_REQUIREMENTS'' of
              Inl e \<Rightarrow> failed [] e
            | Inr requirements \<Rightarrow>
         (case load_global globals ''AGENT_PACKAGE_NAME'' of
              Inl e \<Rightarrow> failed [] e
            | Inr package_name \<Rightarrow>
         (let call = Sdk (EnginesCreate display_name description requirements [''./'' @ package_name])
          in case engines_create sdk display_name description requirements [''./'' @ package_name] of
               Inl e \<Rightarrow> failed [call] e
             | Inr resource_name \<Rightarrow>
                 (pre @
                  [call,
                   print ([CHR 0x0A] @ ''Successfully created agent '' @ [CHR 0x27] @ display_name @ [CHR 0x27]),
                   print (''   Full Resource Name: '' @ resource_name),
                   print (''   Engine ID: '' @ last_segment resource_name)],
                  Returns)))))))"

subsection \<open>delete\<close>

definition delete_handler :: "string list \<Rightarrow> cli_value \<Rightarrow> exn \<Rightarrow> event list" where
  \<comment> \<open>the \<open>except\<close> clauses of \<open>delete\<close>, in their order; \<open>argv\<close> is \<open>sys.argv\<close>\<close>
  "delete_handler argv engine_id e =
     (if exn_cls e = FailedPrecondition then
        (let command_args = filter (\<lambda>arg. \<not> py_startswith arg ''--force'') argv;
             suggested_command = py_join '' '' command_args @ '' --force=True''
         in [eprint ([CHR 0x0A] @ ''Error: Agent '' @ [CHR 0x27] @ py_str engine_id @ [CHR 0x27]
                     @ '' cannot be deleted because it has existing sessions or other child resources.''),
             eprint ''To proceed, you must delete the agent and all its resources by using the --force flag.'',
             eprint ([CHR 0x0A] @ ''Example command:''),
             eprint (''   '' @ suggested_command)])
      else if exn_cls e = NotFound then
        [eprint ([CHR 0x0A] @ ''Error: Agent with ID '' @ [CHR 0x27] @ py_str engine_id @ [CHR 0x27]
                 @ '' not found.'')]
      else if is_api_error e then
        [eprint ([CHR 0x0A] @ ''Error deleting agent: API call failed with status '' @ exn_code e),
         eprint (''Details: '' @ exn_message e)]
      else
        [eprint ([CHR 0x0A] @ ''An unexpected error occurred during deletion: '' @ exn_text e)])"

definition delete :: "AgentManager \<Rightarrow> sdk \<Rightarrow> string list \<Rightarrow> cli_value \<Rightarrow> bool \<Rightarrow> event list \<times> ending" where
  "delete self sdk argv engine_id force =
     (if \<not> truthy engine_id then
        ([eprint ''Error: engine_id is required.''], Returns)
      else
        (let full_resource_name = get_full_resource_name self engine_id;
             pre = [print (''Deleting agent: '' @ full_resource_name @ ''...'')]
                   @ (if force then [print ''   --force flag set. Deleting agent and all child resources.''] else [])
                   @ [Sdk (EnginesDelete full_resource_name force)]
         in case engines_delete sdk full_resource_name force of
              None \<Rightarrow> (pre @ [print ([CHR 0x0A] @ ''Agent deleted successfully.'')], Returns)
            | Some e \<Rightarrow> (pre @ delete_handler argv engine_id e, Returns)))"

subsection \<open>chat\<close>

definition get_remote_agent :: "sdk \<Rightarrow> cli_value \<Rightarrow> event list \<times> string option" where
  \<comment> \<open>\<open>AgentManager._get_remote_agent\<close>: the agent, or \<open>None\<close> after the error is reported;
      an agent object is truthy\<close>
  "get_remote_agent sdk engine_id =
     (let call = Sdk (EnginesGet (py_str engine_id))
      in case engines_get sdk (py_str engine_id) of
           Inr agent \<Rightarrow> ([call], Some agent)
         | Inl e \<Rightarrow>
             (if exn_cls e = NotFound then
                ([call, eprint (''Error: Agent with ID '' @ [CHR 0x27] @ py_str engine_id
                                @ [CHR 0x27] @ '' not found.'')], None)
              else if is_api_error e then
                ([call,
                  eprint (''Error retrieving agent: API call failed with status '' @ exn_code e),
                  eprint (''Details: '' @ exn_message e)], None)
              else
                ([call, eprint (''An unexpected error occurred while retrieving agent: ''
                                @ exn_text e)], None)))"

definition chat_handler :: "bool \<Rightarrow> exn \<Rightarrow> event list" where
  \<comment> \<open>the \<open>except\<close> clauses of \<open>chat\<close>, in their order\<close>
  "chat_handler debug e =
     (if exn_cls e = NotFound then
        [eprint ([CHR 0x0A] @ ''Error during chat: Resource not found. Check your session ID.''),
         eprint (''Details: '' @ exn_message e)]
      else if is_api_error e then
        [eprint ([CHR 0x0A] @ ''Error during chat: API call failed with status '' @ exn_code e),
         eprint (''Details: '' @ exn_message e)]
      else
        [eprint ([CHR 0x0A] @ ''An unexpected error occurred during chat session: '' @ exn_text e)]
        @ (if debug then [Traceback e] else []))"

fun py_truthy :: "pyval \<Rightarrow> bool" where
  "py_truthy PyNone = False"
| "py_truthy (PyBool b) = b"
| "py_truthy (PyInt i) = (i \<noteq> 0)"
| "py_truthy (PyFloat f) = (f \<noteq> FloatFinite ''0.0'' \<and> f \<noteq> FloatFinite ''-0.0'')"
| "py_truthy (PyStr s) = (s \<noteq> [])"
| "py_truthy (PyList vs) = (vs \<noteq> [])"
| "py_truthy (PyDict kvs) = (kvs \<noteq> [])"

fun type_name :: "pyval \<Rightarrow> string" where
  "type_name PyNone = ''NoneType''"
| "type_name (PyBool b) = ''bool''"
| "type_name (PyInt i) = ''int''"
| "type_name (PyFloat f) = ''float''"
| "type_name (PyStr s) = ''str''"
| "type_name (PyList vs) = ''list''"
| "type_name (PyDict kvs) = ''dict''"

definition dict_get :: "(pykey \<times> pyval) list \<Rightarrow> string \<Rightarrow> pyval" where
  \<comment> \<open>\<open>d.get(name)\<close> for a string \<open>name\<close>: \<open>None\<close> when the key is absent\<close>
  "dict_get d name = (case map_of d (KStr name) of None \<Rightarrow> PyNone | Some v \<Rightarrow> v)"

text \<open>
  The text-only display of one chunk: the events it writes, or the \<open>AttributeError\<close> of
  \<open>parts[0].get\<close> when the first part is not a dictionary.
\<close>

fun chunk_text :: "pyval \<Rightarrow> exn + event list" where
  "chunk_text (PyDict chunk) =
     (case dict_get chunk ''content'' of
        PyDict content \<Rightarrow>
          (if content = [] then Inr []
           else (case dict_get content ''parts'' of
                   PyList (PyDict part # _) \<Rightarrow>
                     (let text = dict_get part ''text''
                      in if py_truthy text then Inr [StdoutValue text] else Inr [])
                 | PyList (part # _) \<Rightarrow>
                     Inl (Exn OtherException [] []
                            ([CHR 0x27] @ type_name part @ [CHR 0x27]
                             @ '' object has no attribute '' @ [CHR 0x27] @ ''get'' @ [CHR 0x27]))
                 | _ \<Rightarrow> Inr []))
      | _ \<Rightarrow> Inr [])"
| "chunk_text _ = Inr []"

fun text_loop :: "pyval list \<Rightarrow> event list \<times> exn option" where
  "text_loop [] = ([], None)"
| "text_loop (chunk # stream) =
     (case chunk_text chunk of
        Inl e \<Rightarrow> ([], Some e)
      | Inr evs \<Rightarrow> (let (evs', r) = text_loop stream in (evs @ evs', r)))"

fun raw_loop :: "pyval list \<Rightarrow> event list" where
  \<comment> \<open>\<open>for chunk in stream: print(json.dumps(chunk, indent=2))\<close>\<close>
  "raw_loop [] = []"
| "raw_loop (chunk # stream) = print (dumps chunk 2) # raw_loop stream"

definition chat ::
  "sdk \<Rightarrow> cli_value \<Rightarrow> cli_value \<Rightarrow> cli_value \<Rightarrow> cli_value \<Rightarrow> bool \<Rightarrow> bool \<Rightarrow> event list \<times> ending" where
  "chat sdk engine_id session_id message user_id raw_output debug =
     (let pre = [print (''Sending message to session '' @ [CHR 0x27] @ py_str session_id
                        @ [CHR 0x27] @ ''...''),
                 print (''   User: '' @ [CHR 0x27] @ py_str message @ [CHR 0x27])];
          (got, remote_agent) = get_remote_agent sdk engine_id
      in case remote_agent of
           None \<Rightarrow> (pre @ got, Returns)
         | Some agent \<Rightarrow>
             (let call = Sdk (StreamQuery agent user_id (py_str session_id) message)
              in case stream_query sdk agent user_id (py_str session_id) message of
                   Inl e \<Rightarrow> (pre @ got @ [call] @ chat_handler debug e, Returns)
                 | Inr (stream, failure) \<Rightarrow>
                     (if raw_output then
                        (pre @ got @ [call, print ([CHR 0x0A] @ ''--- RAW AGENT STREAM ---'')]
                         @ raw_loop stream
                         @ (case failure of
                              None \<Rightarrow> [print ''--- END RAW AGENT STREAM ---'']
                            | Some e \<Rightarrow> chat_handler debug e),
                         Returns)
                      else
                        (let (texts, raised) = text_loop stream
                         in (pre @ got @ [call, print ([CHR 0x0A] @ ''Agent:'')] @ texts
                             @ (case raised of
                                  Some e \<Rightarrow> chat_handler debug e
                                | None \<Rightarrow>
                                    (case failure of
                                       None \<Rightarrow> [print []]
                                     | Some e \<Rightarrow> chat_handler debug e)),
                             Returns)))))"

section \<open>Resource names\<close>

lemma py_in_prefix: "py_in p (p @ r)"
proof (cases "p @ r")
  case Nil
  then show ?thesis by simp
next
  case (Cons c cs)
  then show ?thesis
    by (metis append_eq_conv_conj py_in.simps(2) py_startswith_def)
qed

text \<open>
  C9. \<open>_get_full_resource_name\<close> is idempotent: applied to its own output it returns that
  output, and an argument whose text already contains \<open>projects/\<close> is returned as it is.
\<close>

theorem get_full_resource_name_idempotent:
  "get_full_resource_name self (CStr (get_full_resource_name self (CStr s)))
     = get_full_resource_name self (CStr s)
   \<and> get_full_resource_name self (CStr (get_full_resource_name self v))
     = get_full_resource_name self v
   \<and> (py_in ''projects/'' s \<longrightarrow> get_full_resource_name self (CStr s) = s)"
proof -
  have out: "py_in ''projects/'' (get_full_resource_name self v)" for v
    unfolding get_full_resource_name_def Let_def
    using py_in_prefix [of "''projects/''"] by (simp del: py_in.simps)
  have same: "get_full_resource_name self (CStr t) = t" if "py_in ''projects/'' t" for t
    using that unfolding get_full_resource_name_def Let_def by (simp del: py_in.simps)
  show ?thesis using out same by blast
qed

theorem get_full_resource_name_idempotent_witness:
  "py_in ''projects/'' ''projects/p/locations/l/reasoningEngines/7''
   \<and> get_full_resource_name
        \<lparr>project_id = Some ''p'', location = Some ''l'', bucket = Some ''b'',
         agent_package_name = Some ''k'', agent_display_name = Some ''d'',
         agent_description = [], agent_requirements = []\<rparr>
        (CStr ''projects/p/locations/l/reasoningEngines/7'')
      = ''projects/p/locations/l/reasoningEngines/7''"
proof -
  have h: "py_in ''projects/'' ''projects/p/locations/l/reasoningEngines/7''"
    by (simp add: py_startswith_def)
  show ?thesis
    using h get_full_resource_name_idempotent
      [of "\<lparr>project_id = Some ''p'', location = Some ''l'', bucket = Some ''b'',
         agent_package_name = Some ''k'', agent_display_name = Some ''d'',
         agent_description = [], agent_requirements = []\<rparr>"
        "''projects/p/locations/l/reasoningEngines/7''"]
    by blast
qed

section \<open>Deleting a deployment\<close>

text \<open>
  C10. A \<open>delete\<close> whose \<open>engine_id\<close> is falsy (the empty string, 0, \<open>False\<close>, \<open>None\<close>)
  writes one error message and returns: no call into the SDK is made, so no deletion is
  attempted.
\<close>

theorem delete_without_engine_id:
  "\<not> truthy engine_id \<Longrightarrow>
     delete self sdk argv engine_id force = ([eprint ''Error: engine_id is required.''], Returns)
     \<and> (\<forall>call. Sdk call \<notin> set (fst (delete self sdk argv engine_id force)))"
  by (simp add: delete_def eprint_def)

theorem delete_without_engine_id_witness:
  "\<not> truthy (CStr [])
   \<and> delete
        \<lparr>project_id = Some ''p'', location = Some ''l'', bucket = Some ''b'',
         agent_package_name = Some ''k'', agent_display_name = Some ''d'',
         agent_description = [], agent_requirements = []\<rparr>
        \<lparr>vertexai_init = (\<lambda>p l b. None), engines_create = (\<lambda>d e r x. Inr []),
         engines_delete = (\<lambda>n f. None), engines_get = (\<lambda>n. Inr n),
         stream_query = (\<lambda>a u s m. Inr ([], None))\<rparr>
        [''remote.py'', ''delete'', []] (CStr []) False
      = ([eprint ''Error: engine_id is required.''], Returns)"
proof -
  have h: "\<not> truthy (CStr [])" by simp
  from delete_without_engine_id [OF h] h show ?thesis by blast
qed

text \<open>
  C3. A \<open>delete\<close> without force, for an \<open>engine_id\<close> that is given, whose removal the
  platform refuses with a precondition-failed response: the run asks for the removal of
  the resolved resource once, then writes to the error stream that the agent cannot be
  deleted because of its sessions or child resources, that the force flag is needed, and
  the command line of the run with \<open>--force=True\<close> in place of any force argument. It then
  returns. The removal is only attempted for a truthy \<open>engine_id\<close>, hence the first
  hypothesis.
\<close>

theorem delete_failed_precondition:
  assumes "truthy engine_id"
    and "engines_delete sdk (get_full_resource_name self engine_id) False = Some e"
    and "exn_cls e = FailedPrecondition"
  shows "delete self sdk argv engine_id False =
     ([print (''Deleting agent: '' @ get_full_resource_name self engine_id @ ''...''),
       Sdk (EnginesDelete (get_full_resource_name self engine_id) False),
       eprint ([CHR 0x0A] @ ''Error: Agent '' @ [CHR 0x27] @ py_str engine_id @ [CHR 0x27]
               @ '' cannot be deleted because it has existing sessions or other child resources.''),
       eprint ''To proceed, you must delete the agent and all its resources by using the --force flag.'',
       eprint ([CHR 0x0A] @ ''Example command:''),
       eprint (''   '' @ py_join '' '' (filter (\<lambda>arg. \<not> py_startswith arg ''--force'') argv)
               @ '' --force=True'')],
      Returns)"
  using assms by (simp add: delete_def delete_handler_def Let_def)

theorem delete_failed_precondition_witness:
  "truthy (CInt 7)
   \<and> delete
        \<lparr>project_id = Some ''p'', location = Some ''l'', bucket = Some ''b'',
         agent_package_name = Some ''k'', agent_display_name = Some ''d'',
         agent_description = [], agent_requirements = []\<rparr>
        \<lparr>vertexai_init = (\<lambda>p l b. None), engines_create = (\<lambda>d e r x. Inr []),
         engines_delete = (\<lambda>n f. if f then None
                                   else Some (Exn FailedPrecondition ''400'' ''has sessions'' ''400 has sessions'')),
         engines_get = (\<lambda>n. Inr n), stream_query = (\<lambda>a u s m. Inr ([], None))\<rparr>
        [''remote.py'', ''delete'', ''7'', ''--force=False''] (CInt 7) False
      = ([print (''Deleting agent: '' @ get_full_resource_name
                   \<lparr>project_id = Some ''p'', location = Some ''l'', bucket = Some ''b'',
                    agent_package_name = Some ''k'', agent_display_name = Some ''d'',
                    agent_description = [], agent_requirements = []\<rparr> (CInt 7) @ ''...''),
          Sdk (EnginesDelete (get_full_resource_name
                   \<lparr>project_id = Some ''p'', location = Some ''l'', bucket = Some ''b'',
                    agent_package_name = Some ''k'', agent_display_name = Some ''d'',
                    agent_description = [], agent_requirements = []\<rparr> (CInt 7)) False),
          eprint ([CHR 0x0A] @ ''Error: Agent '' @ [CHR 0x27] @ py_str (CInt 7) @ [CHR 0x27]
                  @ '' cannot be deleted because it has existing sessions or other child resources.''),
          eprint ''To proceed, you must delete the agent and all its resources by using the --force flag.'',
          eprint ([CHR 0x0A] @ ''Example command:''),
          eprint ''   remote.py delete 7 --force=True''],
         Returns)"
proof -
  let ?self = "\<lparr>project_id = Some ''p'', location = Some ''l'', bucket = Some ''b'',
         agent_package_name = Some ''k'', agent_display_name = Some ''d'',
         agent_description = [], agent_requirements = []\<rparr>"
  let ?e = "Exn FailedPrecondition ''400'' ''has sessions'' ''400 has sessions''"
  let ?sdk = "\<lparr>vertexai_init = (\<lambda>p l b. None), engines_create = (\<lambda>d e r x. Inr []),
         engines_delete = (\<lambda>n f. if f then None else Some ?e),
         engines_get = (\<lambda>n. Inr n), stream_query = (\<lambda>a u s m. Inr ([], None))\<rparr>"
  have h1: "truthy (CInt 7)" by simp
  have h2: "engines_delete ?sdk (get_full_resource_name ?self (CInt 7)) False = Some ?e" by simp
  have h3: "exn_cls ?e = FailedPrecondition" by simp
  have cmd: "''   '' @ py_join '' '' (filter (\<lambda>arg. \<not> py_startswith arg ''--force'')
                 [''remote.py'', ''delete'', ''7'', ''--force=False'']) @ '' --force=True''
             = ''   remote.py delete 7 --force=True''"
    by (simp add: py_startswith_def)
  from delete_failed_precondition [OF h1 h2 h3, of "[''remote.py'', ''delete'', ''7'', ''--force=False'']"]
  show ?thesis unfolding cmd using h1 by blast
qed

section \<open>Creating a deployment\<close>

text \<open>
  C1. What \<open>create\<close> does once the agent is imported, for every configuration and every
  platform: the first keyword argument of \<open>agent_engines.create\<close> reads the global
  \<open>AGENT_DISPLAY_NAME\<close>, which the module does not bind; the \<open>NameError\<close> is caught by the
  last handler, and the run ends after its message with no call into the SDK.
\<close>

theorem create_never_submits:
  "create remote_globals self sdk True =
     ([print ''Packaging agent...'', print ''Deploying agent to Vertex AI...'',
       eprint ([CHR 0x0A] @ ''An unexpected error occurred during deployment: name ''
               @ [CHR 0x27] @ ''AGENT_DISPLAY_NAME'' @ [CHR 0x27] @ '' is not defined'')],
      Returns)
   \<and> (\<forall>call. Sdk call \<notin> set (fst (create remote_globals self sdk True)))"
  by (simp add: create_def remote_globals_def load_global_def create_handler_def
      is_api_error_def Let_def print_def eprint_def)

section \<open>Configuration\<close>

text \<open>
  C2. When one of the five required variables is unset or empty, \<open>__init__\<close> writes one
  line naming the missing variables to the error stream and the process exits with
  status 1. That line is the whole run: no call into the SDK precedes the exit.
\<close>

theorem init_missing_configuration_exits:
  assumes "\<not> (env_truthy (env ''GOOGLE_CLOUD_PROJECT'') \<and> env_truthy (env ''GOOGLE_CLOUD_LOCATION'')
              \<and> env_truthy (env ''GOOGLE_CLOUD_STAGING_BUCKET'')
              \<and> env_truthy (env ''AGENT_PACKAGE_NAME'') \<and> env_truthy (env ''AGENT_DISPLAY_NAME''))"
  shows "init env sdk =
           ([eprint (''Error: Missing required environment variables: ''
                     @ py_join '', '' (filter (\<lambda>key. \<not> env_truthy (env key))
                          [''GOOGLE_CLOUD_PROJECT'', ''GOOGLE_CLOUD_LOCATION'',
                           ''GOOGLE_CLOUD_STAGING_BUCKET'', ''AGENT_PACKAGE_NAME'',
                           ''AGENT_DISPLAY_NAME'']))],
            Inl 1)
         \<and> (\<forall>call. Sdk call \<notin> set (fst (init env sdk)))"
proof -
  let ?names = "[''GOOGLE_CLOUD_PROJECT'', ''GOOGLE_CLOUD_LOCATION'',
                 ''GOOGLE_CLOUD_STAGING_BUCKET'', ''AGENT_PACKAGE_NAME'', ''AGENT_DISPLAY_NAME'']"
  let ?missing = "filter (\<lambda>key. \<not> env_truthy (env key)) ?names"
  have pairs: "map fst (filter (\<lambda>(key, value). \<not> env_truthy value) (map (\<lambda>key. (key, env key)) ?names))
               = ?missing"
    by (simp add: filter_map o_def)
  have ne: "?missing \<noteq> []"
    using assms by (auto simp: filter_empty_conv)
  have "init env sdk = ([eprint (''Error: Missing required environment variables: ''
                     @ py_join '', '' ?missing)], Inl 1)"
    unfolding init_def Let_def using pairs ne by (simp del: filter.simps)
  then show ?thesis by (simp add: eprint_def)
qed

theorem init_missing_configuration_exits_witness:
  "\<not> env_truthy ([''GOOGLE_CLOUD_PROJECT'' \<mapsto> ''p'', ''GOOGLE_CLOUD_LOCATION'' \<mapsto> []] ''GOOGLE_CLOUD_LOCATION'')
   \<and> snd (init [''GOOGLE_CLOUD_PROJECT'' \<mapsto> ''p'', ''GOOGLE_CLOUD_LOCATION'' \<mapsto> []]
          \<lparr>vertexai_init = (\<lambda>p l b. None), engines_create = (\<lambda>d e r x. Inr []),
           engines_delete = (\<lambda>n f. None), engines_get = (\<lambda>n. Inr n),
           stream_query = (\<lambda>a u s m. Inr ([], None))\<rparr>) = Inl 1"
proof -
  let ?env = "[''GOOGLE_CLOUD_PROJECT'' \<mapsto> ''p'', ''GOOGLE_CLOUD_LOCATION'' \<mapsto> []] :: string \<rightharpoonup> string"
  have h: "\<not> env_truthy (?env ''GOOGLE_CLOUD_LOCATION'')" by simp
  then have "\<not> (env_truthy (?env ''GOOGLE_CLOUD_PROJECT'') \<and> env_truthy (?env ''GOOGLE_CLOUD_LOCATION'')
              \<and> env_truthy (?env ''GOOGLE_CLOUD_STAGING_BUCKET'')
              \<and> env_truthy (?env ''AGENT_PACKAGE_NAME'') \<and> env_truthy (?env ''AGENT_DISPLAY_NAME''))"
    by blast
  from init_missing_configuration_exits [OF this] h show ?thesis by (simp only: snd_conv simp_thms)
qed

lemma py_split_nonempty: "py_split sep s \<noteq> []"
  by (induction s) (auto split: list.splits)

lemma py_split_length: "length (py_split sep s) = Suc (count_list s sep)"
  by (induction s) (auto split: list.splits simp: py_split_nonempty)

lemma py_split_no_sep: "sep \<notin> set (concat (py_split sep s))"
  by (induction s) (auto split: list.splits)

lemma py_strip_subset: "set (py_strip r) \<subseteq> set r"
  by (auto simp: py_strip_def dest!: set_dropWhileD)

lemma parse_requirements_default:
  "parse_requirements ''google-cloud-aiplatform[adk,agent_engines]''
     = [''google-cloud-aiplatform[adk'', ''agent_engines]'']"
  by (simp add: parse_requirements_def py_strip_def py_isspace_def)

lemma init_requirements:
  "snd (init env sdk) = Inr self \<Longrightarrow>
   agent_requirements self = parse_requirements
      (getenv_default env ''AGENT_REQUIREMENTS'' ''google-cloud-aiplatform[adk,agent_engines]'')"
  by (auto simp: init_def Let_def split: if_splits option.splits)

lemma py_join_cons_char: "py_join sep ((c # w) # ws) = c # py_join sep (w # ws)"
  by (cases ws) simp_all

lemma py_join_split: "py_join [sep] (py_split sep s) = s"
proof (induction s)
  case Nil
  then show ?case by simp
next
  case (Cons c cs)
  obtain w ws where r: "py_split sep cs = w # ws"
    using py_split_nonempty [of sep cs] by (cases "py_split sep cs") auto
  show ?case
  proof (cases "c = sep")
    case True
    then show ?thesis using Cons.IH r by simp
  next
    case False
    then show ?thesis using Cons.IH r by (simp add: py_join_cons_char)
  qed
qed

lemma dropWhile_decompose: "xs = takeWhile P xs @ dropWhile P xs"
  by simp

lemma py_strip_decompose:
  "\<exists>a b. p = a @ py_strip p @ b \<and> list_all py_isspace a \<and> list_all py_isspace b"
proof -
  let ?q = "dropWhile py_isspace p"
  let ?a = "takeWhile py_isspace p"
  let ?b = "rev (takeWhile py_isspace (rev ?q))"
  have "rev (rev ?q) = rev (takeWhile py_isspace (rev ?q) @ dropWhile py_isspace (rev ?q))"
    by (simp only: takeWhile_dropWhile_id)
  then have "?q = rev (dropWhile py_isspace (rev ?q)) @ ?b"
    by (simp only: rev_rev_ident rev_append)
  then have q: "?q = py_strip p @ ?b" by (simp only: py_strip_def)
  have "p = ?a @ ?q" by simp
  with q have "p = ?a @ py_strip p @ ?b" by simp
  moreover have "list_all py_isspace ?a" by (simp add: list_all_iff) (meson set_takeWhileD)
  moreover have "list_all py_isspace ?b" by (simp add: list_all_iff) (meson set_takeWhileD)
  ultimately show ?thesis by blast
qed

lemma py_strip_ends:
  assumes "py_strip p \<noteq> []"
  shows "\<not> py_isspace (hd (py_strip p)) \<and> \<not> py_isspace (last (py_strip p))"
proof -
  let ?q = "dropWhile py_isspace p"
  let ?r = "dropWhile py_isspace (rev ?q)"
  have s: "py_strip p = rev ?r" by (simp add: py_strip_def)
  with assms have r: "?r \<noteq> []" by simp
  then have "\<not> py_isspace (hd ?r)" by (rule hd_dropWhile)
  then have l: "\<not> py_isspace (last (py_strip p))" using r s by (simp add: last_rev)
  from r have "rev ?q \<noteq> []" by (metis dropWhile.simps(1))
  then have q: "?q \<noteq> []" by simp
  then have hq: "\<not> py_isspace (hd ?q)" by (rule hd_dropWhile)
  have "rev ?q = takeWhile py_isspace (rev ?q) @ ?r" by simp
  then have "last (rev ?q) = last ?r" using r by (metis last_appendR)
  then have "hd ?q = last ?r" using q by (simp add: last_rev)
  then have "hd (py_strip p) = hd ?q" using r s by (simp add: hd_rev)
  with hq l show ?thesis by simp
qed

text \<open>
  C8. The requirements of a manager that \<open>__init__\<close> returns: with \<open>AGENT_REQUIREMENTS\<close>
  unset they are the two pieces of the default text, cut at the comma inside its brackets;
  with the variable set to \<open>s\<close> they are the parsed \<open>s\<close>. The parser cuts \<open>s\<close> at every comma
  whatever surrounds it: there are pieces free of commas, one more than \<open>s\<close> has commas,
  that joined by commas give \<open>s\<close> back, and the entries are these pieces in their order,
  each without the whitespace at its two ends (the piece is the entry between two runs of
  whitespace, and an entry that is not empty neither starts nor ends with whitespace).
  So no entry contains a comma, and a piece of whitespace only gives an empty entry.
\<close>

theorem requirements_split_on_every_comma:
  "(env ''AGENT_REQUIREMENTS'' = None \<longrightarrow> snd (init env sdk) = Inr self \<longrightarrow>
      agent_requirements self = [''google-cloud-aiplatform[adk'', ''agent_engines]''])
   \<and> (env ''AGENT_REQUIREMENTS'' = Some s \<longrightarrow> snd (init env sdk) = Inr self \<longrightarrow>
      agent_requirements self = parse_requirements s)
   \<and> (\<exists>pieces.
        py_join '','' pieces = s
        \<and> length pieces = Suc (count_list s (CHR '',''))
        \<and> CHR '','' \<notin> set (concat pieces)
        \<and> length (parse_requirements s) = length pieces
        \<and> (\<forall>i < length pieces. \<exists>a b.
              pieces ! i = a @ parse_requirements s ! i @ b
              \<and> list_all py_isspace a \<and> list_all py_isspace b
              \<and> (parse_requirements s ! i = []
                  \<or> (\<not> py_isspace (hd (parse_requirements s ! i))
                      \<and> \<not> py_isspace (last (parse_requirements s ! i))))))
   \<and> length (parse_requirements s) = Suc (count_list s (CHR '',''))
   \<and> CHR '','' \<notin> set (concat (parse_requirements s))
   \<and> parse_requirements ('' a ,'' @ [CHR 0x09] @ ''b[c,'' @ [CHR 0x0A] @ ''d] '' @ [CHR 0x0D])
       = [''a'', ''b[c'', ''d]'']
   \<and> parse_requirements ''a, ,b'' = [''a'', [], ''b'']"
proof -
  have 1: "env ''AGENT_REQUIREMENTS'' = None \<longrightarrow> snd (init env sdk) = Inr self \<longrightarrow>
      agent_requirements self = [''google-cloud-aiplatform[adk'', ''agent_engines]'']"
    using init_requirements [of env sdk self] parse_requirements_default
    by (simp add: getenv_default_def)
  have 2: "env ''AGENT_REQUIREMENTS'' = Some s \<longrightarrow> snd (init env sdk) = Inr self \<longrightarrow>
      agent_requirements self = parse_requirements s"
    using init_requirements [of env sdk self] by (simp add: getenv_default_def)
  have 3: "length (parse_requirements s) = Suc (count_list s (CHR '',''))"
    by (simp add: parse_requirements_def py_split_length)
  have 4: "CHR '','' \<notin> set (concat (parse_requirements s))"
    using py_split_no_sep [of "CHR '',''" s] py_strip_subset
    by (fastforce simp: parse_requirements_def)
  let ?pieces = "py_split (CHR '','') s"
  have entry: "\<exists>a b. ?pieces ! i = a @ parse_requirements s ! i @ b
              \<and> list_all py_isspace a \<and> list_all py_isspace b
              \<and> (parse_requirements s ! i = []
                  \<or> (\<not> py_isspace (hd (parse_requirements s ! i))
                      \<and> \<not> py_isspace (last (parse_requirements s ! i))))"
    if "i < length ?pieces" for i
  proof -
    have e: "parse_requirements s ! i = py_strip (?pieces ! i)"
      using that by (simp add: parse_requirements_def)
    show ?thesis
      unfolding e using py_strip_decompose [of "?pieces ! i"] py_strip_ends [of "?pieces ! i"]
      by blast
  qed
  have 5: "\<exists>pieces.
        py_join '','' pieces = s
        \<and> length pieces = Suc (count_list s (CHR '',''))
        \<and> CHR '','' \<notin> set (concat pieces)
        \<and> length (parse_requirements s) = length pieces
        \<and> (\<forall>i < length pieces. \<exists>a b.
              pieces ! i = a @ parse_requirements s ! i @ b
              \<and> list_all py_isspace a \<and> list_all py_isspace b
              \<and> (parse_requirements s ! i = []
                  \<or> (\<not> py_isspace (hd (parse_requirements s ! i))
                      \<and> \<not> py_isspace (last (parse_requirements s ! i)))))"
  proof (intro exI [of _ ?pieces] conjI allI impI)
    show "py_join '','' ?pieces = s" by (rule py_join_split)
    show "length ?pieces = Suc (count_list s (CHR '',''))" by (rule py_split_length)
    show "CHR '','' \<notin> set (concat ?pieces)" by (rule py_split_no_sep)
    show "length (parse_requirements s) = length ?pieces" by (simp add: parse_requirements_def)
  qed (rule entry)
  have 6: "parse_requirements ('' a ,'' @ [CHR 0x09] @ ''b[c,'' @ [CHR 0x0A] @ ''d] '' @ [CHR 0x0D])
       = [''a'', ''b[c'', ''d]'']"
    by (simp add: parse_requirements_def py_strip_def py_isspace_def)
  have 7: "parse_requirements ''a, ,b'' = [''a'', [], ''b'']"
    by (simp add: parse_requirements_def py_strip_def py_isspace_def)
  show ?thesis using 1 2 3 4 5 6 7 by blast
qed

theorem requirements_split_on_every_comma_witness:
  "[''GOOGLE_CLOUD_PROJECT'' \<mapsto> ''p'', ''GOOGLE_CLOUD_LOCATION'' \<mapsto> ''l'',
    ''GOOGLE_CLOUD_STAGING_BUCKET'' \<mapsto> ''b'', ''AGENT_PACKAGE_NAME'' \<mapsto> ''k'',
    ''AGENT_DISPLAY_NAME'' \<mapsto> ''d''] ''AGENT_REQUIREMENTS'' = None
   \<and> (\<exists>self. snd (init [''GOOGLE_CLOUD_PROJECT'' \<mapsto> ''p'', ''GOOGLE_CLOUD_LOCATION'' \<mapsto> ''l'',
          ''GOOGLE_CLOUD_STAGING_BUCKET'' \<mapsto> ''b'', ''AGENT_PACKAGE_NAME'' \<mapsto> ''k'',
          ''AGENT_DISPLAY_NAME'' \<mapsto> ''d'']
          \<lparr>vertexai_init = (\<lambda>p l b. None), engines_create = (\<lambda>d e r x. Inr []),
           engines_delete = (\<lambda>n f. None), engines_get = (\<lambda>n. Inr n),
           stream_query = (\<lambda>a u s m. Inr ([], None))\<rparr>) = Inr self
        \<and> agent_requirements self = [''google-cloud-aiplatform[adk'', ''agent_engines]''])"
proof -
  let ?env = "[''GOOGLE_CLOUD_PROJECT'' \<mapsto> ''p'', ''GOOGLE_CLOUD_LOCATION'' \<mapsto> ''l'',
    ''GOOGLE_CLOUD_STAGING_BUCKET'' \<mapsto> ''b'', ''AGENT_PACKAGE_NAME'' \<mapsto> ''k'',
    ''AGENT_DISPLAY_NAME'' \<mapsto> ''d''] :: string \<rightharpoonup> string"
  let ?sdk = "\<lparr>vertexai_init = (\<lambda>p l b. None), engines_create = (\<lambda>d e r x. Inr []),
           engines_delete = (\<lambda>n f. None), engines_get = (\<lambda>n. Inr n),
           stream_query = (\<lambda>a u s m. Inr ([], None))\<rparr>"
  have h1: "?env ''AGENT_REQUIREMENTS'' = None" by simp
  have "\<exists>self. snd (init ?env ?sdk) = Inr self"
    by (simp add: init_def Let_def)
  then obtain self where h2: "snd (init ?env ?sdk) = Inr self" ..
  from requirements_split_on_every_comma [of ?env ?sdk self "[]"] h1 h2
  have "agent_requirements self = [''google-cloud-aiplatform[adk'', ''agent_engines]'']" by blast
  with h1 h2 show ?thesis by blast
qed


section \<open>Counting characters\<close>

text \<open>
  C6. \<open>count_characters\<close> returns the length of its argument, a non-negative integer, and
  0 for the empty string. It is a function of its argument and has no other effect. One
  \<open>char\<close> of the model is one character of the Python string.
\<close>

theorem count_characters_is_length:
  "count_characters s = int (length s) \<and> 0 \<le> count_characters s \<and> count_characters [] = 0"
  by (simp add: count_characters_def)

section \<open>The chat stream\<close>

lemma raw_loop_map: "raw_loop stream = map (\<lambda>chunk. print (dumps chunk 2)) stream"
  by (induction stream) simp_all

text \<open>
  C7. \<open>chat\<close> with \<open>raw_output\<close> set, once the agent is found and the stream is opened:
  after the header, the run prints one record for each chunk that the stream yields, the
  chunk serialised alone by \<open>json.dumps\<close> with \<open>indent=2\<close>, in the order of arrival. After
  the last chunk comes the footer, or the report of the exception that ended the stream.
\<close>

theorem chat_raw_output_one_record_per_chunk:
  assumes "engines_get sdk (py_str engine_id) = Inr agent"
    and "stream_query sdk agent user_id (py_str session_id) message = Inr (stream, failure)"
  shows "chat sdk engine_id session_id message user_id True debug =
     ([print (''Sending message to session '' @ [CHR 0x27] @ py_str session_id @ [CHR 0x27] @ ''...''),
       print (''   User: '' @ [CHR 0x27] @ py_str message @ [CHR 0x27]),
       Sdk (EnginesGet (py_str engine_id)),
       Sdk (StreamQuery agent user_id (py_str session_id) message),
       print ([CHR 0x0A] @ ''--- RAW AGENT STREAM ---'')]
      @ map (\<lambda>chunk. print (dumps chunk 2)) stream
      @ (case failure of
           None \<Rightarrow> [print ''--- END RAW AGENT STREAM ---'']
         | Some e \<Rightarrow> chat_handler debug e),
      Returns)"
  using assms by (simp add: chat_def get_remote_agent_def Let_def raw_loop_map)

theorem chat_raw_output_one_record_per_chunk_witness:
  "engines_get
     \<lparr>vertexai_init = (\<lambda>p l b. None), engines_create = (\<lambda>d e r x. Inr []),
      engines_delete = (\<lambda>n f. None), engines_get = (\<lambda>n. Inr n),
      stream_query = (\<lambda>a u s m. Inr ([PyDict [(KStr ''id'', PyInt 1)], PyStr ''a''], None))\<rparr>
     (py_str (CInt 7)) = Inr (py_str (CInt 7))
   \<and> fst (chat
        \<lparr>vertexai_init = (\<lambda>p l b. None), engines_create = (\<lambda>d e r x. Inr []),
         engines_delete = (\<lambda>n f. None), engines_get = (\<lambda>n. Inr n),
         stream_query = (\<lambda>a u s m. Inr ([PyDict [(KStr ''id'', PyInt 1)], PyStr ''a''], None))\<rparr>
        (CInt 7) (CStr ''s1'') (CStr ''hello'') (CStr ''default-user'') True False)
     = [print (''Sending message to session '' @ [CHR 0x27] @ ''s1'' @ [CHR 0x27] @ ''...''),
        print (''   User: '' @ [CHR 0x27] @ ''hello'' @ [CHR 0x27]),
        Sdk (EnginesGet (py_str (CInt 7))),
        Sdk (StreamQuery (py_str (CInt 7)) (CStr ''default-user'') ''s1'' (CStr ''hello'')),
        print ([CHR 0x0A] @ ''--- RAW AGENT STREAM ---''),
        print (dumps (PyDict [(KStr ''id'', PyInt 1)]) 2),
        print (dumps (PyStr ''a'') 2),
        print ''--- END RAW AGENT STREAM ---'']"
proof -
  let ?sdk = "\<lparr>vertexai_init = (\<lambda>p l b. None), engines_create = (\<lambda>d e r x. Inr []),
      engines_delete = (\<lambda>n f. None), engines_get = (\<lambda>n. Inr n),
      stream_query = (\<lambda>a u s m. Inr ([PyDict [(KStr ''id'', PyInt 1)], PyStr ''a''], None))\<rparr>"
  have h1: "engines_get ?sdk (py_str (CInt 7)) = Inr (py_str (CInt 7))" by simp
  have h2: "stream_query ?sdk (py_str (CInt 7)) (CStr ''default-user'') (py_str (CStr ''s1'')) (CStr ''hello'')
            = Inr ([PyDict [(KStr ''id'', PyInt 1)], PyStr ''a''], None)" by simp
  from chat_raw_output_one_record_per_chunk [OF h1 h2, of False] h1
  show ?thesis by simp
qed

section \<open>Formatting as JSON\<close>

subsection \<open>The keys in the text\<close>

lemma read_text_append:
  "read_text st (a @ b) =
     (fst (read_text (fst (read_text st a)) b),
      snd (read_text st a) @ snd (read_text (fst (read_text st a)) b))"
  by (induction a arbitrary: st) (simp_all add: split_beta)

lemma read_seq:
  "read_text st a = (st1, k1) \<Longrightarrow> read_text st1 b = (st2, k2) \<Longrightarrow>
   read_text st (a @ b) = (st2, k1 @ k2)"
  by (simp add: read_text_append)

lemma read_mid_plain: "CHR 0x0A \<notin> set t \<Longrightarrow> read_text Mid t = (Mid, [])"
  by (induction t) auto

lemma read_indent_plain:
  "t \<noteq> [] \<Longrightarrow> hd t \<noteq> CHR '' '' \<Longrightarrow> (hd t = CHR 0x22 \<longrightarrow> k \<noteq> 4) \<Longrightarrow> CHR 0x0A \<notin> set t \<Longrightarrow>
   read_text (Indent k) t = (Mid, [])"
  by (cases t) (auto simp: read_mid_plain)

lemma read_spaces: "read_text (Indent j) (replicate n (CHR '' '')) = (Indent (j + n), [])"
  by (induction n arbitrary: j) auto

lemma read_newline_indent:
  "st = Mid \<or> st = Indent k \<Longrightarrow> read_text st (newline_indent 4 lvl) = (Indent (4 * lvl), [])"
  using read_spaces [of 0 "4 * lvl"] by (auto simp: newline_indent_def)

lemma hex_val_low: "d < 10 \<Longrightarrow> hex_val (char_of (48 + d)) = d"
proof -
  assume d: "d < 10"
  have "(of_char (char_of (48 + d)) :: nat) = (48 + d) mod 256" by (rule of_char_of)
  also have "\<dots> = 48 + d" using d by simp
  finally have n: "(of_char (char_of (48 + d)) :: nat) = 48 + d" .
  show ?thesis unfolding hex_val_def Let_def n using d by simp
qed

lemma hex_val_high: "10 \<le> d \<Longrightarrow> d < 16 \<Longrightarrow> hex_val (char_of (87 + d)) = d"
proof -
  assume d: "10 \<le> d" "d < 16"
  have "(of_char (char_of (87 + d)) :: nat) = (87 + d) mod 256" by (rule of_char_of)
  also have "\<dots> = 87 + d" using d by simp
  finally have n: "(of_char (char_of (87 + d)) :: nat) = 87 + d" .
  show ?thesis unfolding hex_val_def Let_def n using d by simp
qed

lemma hex_val_digit: "d < 16 \<Longrightarrow> hex_val (hex_digit d) = d"
  using hex_val_low [of d] hex_val_high [of d] by (cases "d < 10") (simp_all add: hex_digit_def)

lemma hex4_small:
  assumes "n < 256"
  shows "hex4 n = [hex_digit 0, hex_digit 0, hex_digit (n div 16), hex_digit (n mod 16)]"
proof -
  have "n div 4096 = 0" "n div 256 = 0" "n div 16 mod 16 = n div 16" using assms by simp_all
  then show ?thesis by (simp only: hex4_def mod_0)
qed

lemma read_hex_digits:
  "read_text (InKeyHex acc []) [h1, h2, h3, h4] =
     (InKey (char_of (hex_val h1 * 4096 + hex_val h2 * 256 + hex_val h3 * 16 + hex_val h4) # acc), [])"
  by simp

lemma read_hex4:
  assumes "n < 256"
  shows "read_text (InKeyHex acc []) (hex4 n) = (InKey (char_of n # acc), [])"
proof -
  have a: "hex_val (hex_digit 0) = 0" by (rule hex_val_digit) simp
  have b: "hex_val (hex_digit (n div 16)) = n div 16" using assms by (intro hex_val_digit) simp
  have c: "hex_val (hex_digit (n mod 16)) = n mod 16" by (rule hex_val_digit) simp
  have d: "n div 16 * 16 + n mod 16 = n" by simp
  show ?thesis
    by (simp only: hex4_small [OF assms] read_hex_digits a b c d mult_0 add_0)
qed

lemma escape_char_cases:
  obtains (special) e where "escape_char c = [CHR 0x5C, e]" "e \<noteq> CHR ''u''" "unescape e = c" "e \<noteq> CHR 0x0A"
  | (plain) "escape_char c = [c]" "c \<noteq> CHR 0x22" "c \<noteq> CHR 0x5C" "32 \<le> (of_char c :: nat)"
  | (hex) "escape_char c = [CHR 0x5C, CHR ''u''] @ hex4 (of_char c)"
proof -
  consider (bs) "c = CHR 0x5C" | (quote) "c = CHR 0x22"
    | (pl) "c \<noteq> CHR 0x5C" "c \<noteq> CHR 0x22" "32 \<le> (of_char c :: nat) \<and> (of_char c :: nat) \<le> 126"
    | (b) "c = CHR 0x08" | (f) "c = CHR 0x0C" | (n) "c = CHR 0x0A" | (r) "c = CHR 0x0D" | (t) "c = CHR 0x09"
    | (other) "c \<noteq> CHR 0x5C" "c \<noteq> CHR 0x22" "\<not> (32 \<le> (of_char c :: nat) \<and> (of_char c :: nat) \<le> 126)"
        "c \<noteq> CHR 0x08" "c \<noteq> CHR 0x0C" "c \<noteq> CHR 0x0A" "c \<noteq> CHR 0x0D" "c \<noteq> CHR 0x09"
    by blast
  then show thesis
  proof cases
    case bs
    show thesis by (rule special [of "CHR 0x5C"]) (simp_all add: bs escape_char_def unescape_def)
  next
    case quote
    show thesis by (rule special [of "CHR 0x22"]) (simp_all add: quote escape_char_def unescape_def)
  next
    case pl
    then have "escape_char c = [c]" by (simp only: escape_char_def if_False if_True simp_thms)
    with pl show thesis by (intro plain) simp_all
  next
    case b
    show thesis by (rule special [of "CHR ''b''"]) (simp_all add: b escape_char_def unescape_def)
  next
    case f
    show thesis by (rule special [of "CHR ''f''"]) (simp_all add: f escape_char_def unescape_def)
  next
    case n
    show thesis by (rule special [of "CHR ''n''"]) (simp_all add: n escape_char_def unescape_def)
  next
    case r
    show thesis by (rule special [of "CHR ''r''"]) (simp_all add: r escape_char_def unescape_def)
  next
    case t
    show thesis by (rule special [of "CHR ''t''"]) (simp_all add: t escape_char_def unescape_def)
  next
    case other
    then have "escape_char c = [CHR 0x5C, CHR ''u''] @ hex4 (of_char c)"
      by (simp only: escape_char_def if_False simp_thms)
    then show thesis by (rule hex)
  qed
qed

lemma read_escape_char:
  "read_text (InKey acc) (escape_char c) = (InKey (c # acc), [])"
proof (cases c rule: escape_char_cases)
  case (special e)
  then show ?thesis by simp
next
  case plain
  then show ?thesis by simp
next
  case hex
  have h: "read_text (InKeyHex acc []) (hex4 (of_char c)) = (InKey (char_of (of_char c :: nat) # acc), [])"
    by (rule read_hex4) simp
  have "read_text (InKey acc) [CHR 0x5C, CHR ''u''] = (InKeyHex acc [], [])" by simp
  from read_seq [OF this h] show ?thesis by (simp only: hex append_Nil char_of_char)
qed

lemma read_escaped: "read_text (InKey acc) (concat (map escape_char s)) = (InKey (rev s @ acc), [])"
proof (induction s arbitrary: acc)
  case Nil
  then show ?case by simp
next
  case (Cons c s)
  show ?case
    using read_seq [OF read_escape_char [of acc c] Cons.IH [of "c # acc"]] by simp
qed

lemma read_key_line: "read_text (Indent 4) (py_encode_basestring_ascii s) = (Mid, [s])"
proof -
  have q: "read_text (InKey (rev s)) [CHR 0x22] = (Mid, [s])" by simp
  have "read_text (InKey []) (concat (map escape_char s) @ [CHR 0x22]) = (Mid, [] @ [s])"
    using read_seq [OF read_escaped [of "[]" s]] q by simp
  then show ?thesis by (simp add: py_encode_basestring_ascii_def)
qed

lemma hex_digit_no_newline: "d < 16 \<Longrightarrow> hex_digit d \<noteq> CHR 0x0A"
proof
  assume d: "d < 16" and e: "hex_digit d = CHR 0x0A"
  have "hex_val (hex_digit d) = d" using d by (rule hex_val_digit)
  moreover have "hex_val (CHR 0x0A) = 0" by (simp add: hex_val_def)
  ultimately have "d = 0" using e by simp
  then have "(of_char (hex_digit d) :: nat) = 48" by (simp add: hex_digit_def)
  moreover have "(of_char (CHR 0x0A) :: nat) = 10" by simp
  ultimately show False using e by simp
qed

lemma hex4_no_newline: "CHR 0x0A \<notin> set (hex4 n)"
proof -
  have "n div 4096 mod 16 < 16" "n div 256 mod 16 < 16" "n div 16 mod 16 < 16" "n mod 16 < 16"
    by simp_all
  from this [THEN hex_digit_no_newline] show ?thesis
    unfolding hex4_def by simp
qed

lemma escape_char_no_newline: "CHR 0x0A \<notin> set (escape_char c)"
proof (cases c rule: escape_char_cases)
  case (special e)
  then show ?thesis by simp
next
  case plain
  have "c \<noteq> CHR 0x0A" using plain(4) by auto
  with plain show ?thesis by simp
next
  case hex
  then show ?thesis using hex4_no_newline [of "of_char c"] by simp
qed

lemma encoded_no_newline: "CHR 0x0A \<notin> set (py_encode_basestring_ascii s)"
  by (simp add: py_encode_basestring_ascii_def escape_char_no_newline)

lemma read_encoded_string:
  assumes "st = Mid \<or> (st = Indent k \<and> k \<noteq> 4)"
  shows "read_text st (py_encode_basestring_ascii s) = (Mid, [])"
proof -
  have a: "read_text Mid (py_encode_basestring_ascii s) = (Mid, [])"
    by (rule read_mid_plain [OF encoded_no_newline])
  have b: "read_text (Indent k) (py_encode_basestring_ascii s) = (Mid, [])" if "k \<noteq> 4"
    by (rule read_indent_plain [OF _ _ _ encoded_no_newline])
       (simp_all add: py_encode_basestring_ascii_def that)
  show ?thesis using assms a b by blast
qed

lemma read_scalar:
  assumes "t \<noteq> []" and "\<forall>c \<in> set t. plain_char c" and "st = Mid \<or> st = Indent k"
  shows "read_text st t = (Mid, [])"
proof -
  have nl: "CHR 0x0A \<notin> set t" using assms(2) by (auto simp: plain_char_def)
  have "hd t \<in> set t" using assms(1) by simp
  then have h: "plain_char (hd t)" using assms(2) by blast
  have "read_text (Indent k) t = (Mid, [])"
    by (rule read_indent_plain [OF assms(1) _ _ nl]) (use h in \<open>simp_all add: plain_char_def\<close>)
  moreover have "read_text Mid t = (Mid, [])" by (rule read_mid_plain [OF nl])
  ultimately show ?thesis using assms(3) by blast
qed

lemma plain_char_code:
  assumes "45 \<le> (of_char c :: nat)"
  shows "plain_char c"
proof -
  have "(of_char (CHR 0x0A) :: nat) = 10" "(of_char (CHR '' '') :: nat) = 32" "(of_char (CHR 0x22) :: nat) = 34"
    by simp_all
  then have "c \<noteq> CHR 0x0A" "c \<noteq> CHR '' ''" "c \<noteq> CHR 0x22"
    using assms by fastforce+
  then show ?thesis by (simp add: plain_char_def)
qed

lemma digit_char_code: "d < 10 \<Longrightarrow> (of_char (digit_char d) :: nat) = 48 + d"
  by (simp add: digit_char_def)

lemma nat_digits_plain: "c \<in> set (nat_digits n) \<Longrightarrow> 45 \<le> (of_char c :: nat)"
proof (induction n rule: nat_digits.induct)
  case (1 n)
  show ?case
  proof (cases "n < 10")
    case True
    with "1.prems" have "c = digit_char n" by (simp add: nat_digits.simps [of n])
    then show ?thesis using digit_char_code [OF True] by simp
  next
    case False
    with "1.prems" have "c \<in> set (nat_digits (n div 10)) \<or> c = digit_char (n mod 10)"
      by (auto simp: nat_digits.simps [of n])
    then show ?thesis
    proof
      assume "c \<in> set (nat_digits (n div 10))"
      then show ?thesis using "1.IH" False by simp
    next
      assume "c = digit_char (n mod 10)"
      then show ?thesis using digit_char_code [of "n mod 10"] by simp
    qed
  qed
qed

lemma nat_digits_nonempty: "nat_digits n \<noteq> []"
  by (simp add: nat_digits.simps [of n])

lemma int_repr_plain: "int_repr i \<noteq> [] \<and> (\<forall>c \<in> set (int_repr i). plain_char c)"
proof -
  have "45 \<le> (of_char c :: nat)" if "c \<in> set (int_repr i)" for c
    using that nat_digits_plain [of c] by (auto simp: int_repr_def split: if_splits)
  then show ?thesis using nat_digits_nonempty by (auto simp: int_repr_def intro: plain_char_code)
qed

lemma float_char_plain: "c \<in> set ''0123456789.e+-'' \<Longrightarrow> plain_char c"
  unfolding plain_char_def by (elim set_ConsD [elim_format] disjE) simp_all


lemma floatstr_plain:
  assumes "float_ok f"
  shows "floatstr f \<noteq> [] \<and> (\<forall>c \<in> set (floatstr f). plain_char c)"
proof (cases f)
  case (FloatFinite r)
  with assms have "r \<noteq> []" "\<forall>c \<in> set r. c \<in> set ''0123456789.e+-''"
    by (simp_all add: float_text_ok_def list_all_iff)
  then show ?thesis using float_char_plain FloatFinite by auto
qed (simp_all add: plain_char_def)

lemma read_open:
  assumes "st = Mid \<or> st = Indent k" and "plain_char b"
  shows "read_text st (b # newline_indent 4 lvl) = (Indent (4 * lvl), [])"
proof -
  have "read_text st [b] = (Mid, [])"
    by (rule read_scalar [OF _ _ assms(1)]) (simp_all add: assms(2))
  from read_seq [OF this read_newline_indent [of Mid _ lvl]] show ?thesis by simp
qed

lemma read_close:
  assumes "plain_char b"
  shows "read_text Mid (newline_indent 4 lvl @ [b]) = (Mid, [])"
proof -
  have "read_text (Indent (4 * lvl)) [b] = (Mid, [])"
    by (rule read_scalar [of _ _ "4 * lvl"]) (simp_all add: assms)
  from read_seq [OF read_newline_indent [of Mid _ lvl] this] show ?thesis by simp
qed

lemma calm_iff: "calm st = (st = Mid \<or> (\<exists>k. st = Indent k \<and> k \<noteq> 4))"
  by (cases st) auto

lemma read_scalar_calm:
  "t \<noteq> [] \<and> (\<forall>c \<in> set t. plain_char c) \<Longrightarrow> calm st \<Longrightarrow> read_text st t = (Mid, [])"
  using read_scalar [of t st] by (auto simp: calm_iff)

lemma read_string_calm: "calm st \<Longrightarrow> read_text st (py_encode_basestring_ascii s) = (Mid, [])"
  using read_encoded_string [of st _ s] by (auto simp: calm_iff)

lemma read_open_calm:
  assumes "calm st" and "plain_char b"
  shows "read_text st (b # newline_indent 4 lvl) = (Indent (4 * lvl), [])"
proof -
  from assms(1) consider "st = Mid" | k where "st = Indent k" by (auto simp: calm_iff)
  then show ?thesis
  proof cases
    case 1
    then show ?thesis using read_open [of st 0 b lvl] assms(2) by blast
  next
    case 2
    then show ?thesis using read_open [of st k b lvl] assms(2) by blast
  qed
qed

declare read_text.simps [simp del]

lemma read_nested:
  "(indent = 4 \<longrightarrow> floats_ok v \<longrightarrow> 1 \<le> lvl \<longrightarrow>
      (\<forall>st. calm st \<longrightarrow> read_text st (iterencode indent v lvl) = (Mid, [])))"
  "(indent = 4 \<longrightarrow> floats_ok_list vs \<longrightarrow> 2 \<le> lvl \<longrightarrow>
      (\<forall>st b. calm st \<longrightarrow> plain_char b \<longrightarrow> buf = b # newline_indent 4 lvl \<longrightarrow>
         read_text st (iterencode_list indent buf vs lvl) = (if vs = [] then st else Mid, [])))"
  "(indent = 4 \<longrightarrow> floats_ok_dict kvs \<longrightarrow> 2 \<le> lvl \<longrightarrow>
      read_text (if first then Indent (4 * lvl) else Mid) (iterencode_dict indent first kvs lvl)
        = (if kvs = [] then (if first then Indent (4 * lvl) else Mid) else Mid, []))"
proof (induction indent v lvl and indent buf vs lvl and indent first kvs lvl
       rule: iterencode_iterencode_list_iterencode_dict.induct)
  case (1 indent s lvl)
  then show ?case by (simp add: read_string_calm)
next
  case (2 indent lvl)
  show ?case by (auto intro!: read_scalar_calm simp: plain_char_def)
next
  case (3 indent b lvl)
  show ?case by (cases b) (auto intro!: read_scalar_calm simp: plain_char_def)
next
  case (4 indent i lvl)
  then show ?case by (simp add: read_scalar_calm int_repr_plain)
next
  case (5 indent f lvl)
  then show ?case by (simp add: read_scalar_calm floatstr_plain)
next
  case (6 indent lvl)
  show ?case by (auto intro!: read_scalar_calm simp: plain_char_def)
next
  case (7 indent v vs lvl)
  show ?case
  proof (intro impI allI)
    fix st
    assume h: "indent = 4" "floats_ok (PyList (v # vs))" "1 \<le> lvl" "calm st"
    have items: "read_text st (iterencode_list 4 (''['' @ newline_indent 4 (lvl + 1)) (v # vs) (lvl + 1)) = (Mid, [])"
      using 7 h by (simp add: plain_char_def)
    have close: "read_text Mid (newline_indent 4 lvl @ '']'') = (Mid, [])"
      by (rule read_close) (simp add: plain_char_def)
    from read_seq [OF items close] show "read_text st (iterencode indent (PyList (v # vs)) lvl) = (Mid, [])"
      using h by simp
  qed
next
  case (8 indent lvl)
  show ?case by (auto intro!: read_scalar_calm simp: plain_char_def)
next
  case (9 indent kv kvs lvl)
  show ?case
  proof (intro impI allI)
    fix st
    assume h: "indent = 4" "floats_ok (PyDict (kv # kvs))" "1 \<le> lvl" "calm st"
    have opn: "read_text st (CHR ''{'' # newline_indent 4 (lvl + 1)) = (Indent (4 * (lvl + 1)), [])"
      by (rule read_open_calm [OF h(4)]) (simp add: plain_char_def)
    have items: "read_text (Indent (4 * (lvl + 1))) (iterencode_dict 4 True (kv # kvs) (lvl + 1)) = (Mid, [])"
      using 9 h by simp
    have close: "read_text Mid (newline_indent 4 lvl @ ''}'') = (Mid, [])"
      by (rule read_close) (simp add: plain_char_def)
    from read_seq [OF read_seq [OF opn items] close]
    show "read_text st (iterencode indent (PyDict (kv # kvs)) lvl) = (Mid, [])"
      using h by simp
  qed
next
  case (10 indent buf lvl)
  then show ?case by (simp add: read_text.simps)
next
  case (11 indent buf v vs lvl)
  show ?case
  proof (intro impI allI)
    fix st b
    assume h: "indent = 4" "floats_ok_list (v # vs)" "2 \<le> lvl" "calm st" "plain_char b"
      "buf = b # newline_indent 4 lvl"
    have opn: "read_text st buf = (Indent (4 * lvl), [])"
      unfolding h(6) by (rule read_open_calm [OF h(4) h(5)])
    have item: "read_text (Indent (4 * lvl)) (iterencode 4 v lvl) = (Mid, [])"
      using 11(1) h by simp
    have rest: "read_text Mid (iterencode_list 4 ('','' @ newline_indent 4 lvl) vs lvl) = (Mid, [])"
      using 11(2) h by (simp add: plain_char_def)
    from read_seq [OF read_seq [OF opn item] rest]
    show "read_text st (iterencode_list indent buf (v # vs) lvl) = (if v # vs = [] then st else Mid, [])"
      using h by simp
  qed
next
  case (12 indent first lvl)
  then show ?case by (simp add: read_text.simps)
next
  case (13 indent first k v kvs lvl)
  show ?case
  proof (intro impI)
    assume h: "indent = 4" "floats_ok_dict ((k, v) # kvs)" "2 \<le> lvl"
    have sep: "read_text (if first then Indent (4 * lvl) else Mid)
                 (if first then [] else '','' @ newline_indent 4 lvl) = (Indent (4 * lvl), [])"
      using read_open [of Mid 0 "CHR '',''" lvl] by (simp add: plain_char_def read_text.simps)
    have key: "read_text (Indent (4 * lvl)) (py_encode_basestring_ascii (key_text k)) = (Mid, [])"
      using h(3) by (intro read_string_calm) simp
    have colon: "read_text Mid '': '' = (Mid, [])" by (simp add: read_text.simps)
    have val: "read_text Mid (iterencode 4 v lvl) = (Mid, [])"
      using 13(1) h by simp
    have rest: "read_text Mid (iterencode_dict 4 False kvs lvl) = (Mid, [])"
      using 13(2) h by simp
    from read_seq [OF read_seq [OF read_seq [OF read_seq [OF sep key] colon] val] rest]
    show "read_text (if first then Indent (4 * lvl) else Mid) (iterencode_dict indent first ((k, v) # kvs) lvl)
          = (if (k, v) # kvs = [] then if first then Indent (4 * lvl) else Mid else Mid, [])"
      using h by simp
  qed
qed

lemma read_top_items:
  assumes "kwargs_floats_ok kwargs"
  shows "read_text (if first then Indent 4 else Mid)
           (iterencode_dict 4 first (map (\<lambda>(k, v). (KStr k, v)) kwargs) 1)
         = (if kwargs = [] then (if first then Indent 4 else Mid) else Mid, map fst kwargs)"
  using assms
proof (induction kwargs arbitrary: first)
  case Nil
  then show ?case by (simp add: read_text.simps)
next
  case (Cons kv kwargs)
  obtain k v where kv: "kv = (k, v)" by (cases kv)
  from Cons.prems have ok: "floats_ok v" "kwargs_floats_ok kwargs"
    by (simp_all add: kwargs_floats_ok_def kv)
  have sep: "read_text (if first then Indent 4 else Mid)
               (if first then [] else '','' @ newline_indent 4 1) = (Indent 4, [])"
    using read_open [of Mid 0 "CHR '',''" 1] by (simp add: plain_char_def read_text.simps)
  have key: "read_text (Indent 4) (py_encode_basestring_ascii (key_text (KStr k))) = (Mid, [k])"
    by (simp add: read_key_line)
  have colon: "read_text Mid '': '' = (Mid, [])" by (simp add: read_text.simps)
  have val: "read_text Mid (iterencode 4 v 1) = (Mid, [])"
    using read_nested(1) [of 4 v 1] ok(1) by simp
  have rest: "read_text Mid (iterencode_dict 4 False (map (\<lambda>(k, v). (KStr k, v)) kwargs) 1)
              = (Mid, map fst kwargs)"
    using Cons.IH [OF ok(2), of False] by simp
  from read_seq [OF read_seq [OF read_seq [OF read_seq [OF sep key] colon] val] rest]
  show ?case by (cases first) (simp_all add: kv)
qed

lemma count_list_distinct: "distinct xs \<Longrightarrow> x \<in> set xs \<Longrightarrow> count_list xs x = 1"
  by (induction xs) auto

lemma top_level_keys_format:
  assumes "kwargs_floats_ok kwargs"
  shows "top_level_keys (format_as_json kwargs) = map fst kwargs"
proof (cases kwargs)
  case Nil
  then show ?thesis
    by (simp add: top_level_keys_def format_as_json_def dumps_def read_text.simps)
next
  case (Cons kv rest)
  have opn: "read_text Mid (CHR ''{'' # newline_indent 4 1) = (Indent (4 * 1), [])"
    by (rule read_open_calm) (simp_all add: plain_char_def)
  have items: "read_text (Indent 4) (iterencode_dict 4 True (map (\<lambda>(k, v). (KStr k, v)) kwargs) 1)
               = (Mid, map fst kwargs)"
    using read_top_items [OF assms, of True] Cons by simp
  have close: "read_text Mid (newline_indent 4 0 @ ''}'') = (Mid, [])"
    by (rule read_close) (simp add: plain_char_def)
  from read_seq [OF read_seq [OF opn [simplified] items] close]
  have "read_text Mid (format_as_json kwargs) = (Mid, map fst kwargs)"
    using Cons by (simp add: format_as_json_def dumps_def split_def)
  then show ?thesis by (simp add: top_level_keys_def)
qed

text \<open>
  C5. The text that \<open>format_as_json\<close> returns holds the keys of the keyword arguments, each
  on a line of its own after exactly four spaces, in the order of the call: reading the
  top-level keys back from the text gives the list of the keys as passed. Hence no key is
  dropped, and as the keys of a call are distinct, each is there exactly once. The
  hypothesis only concerns the text that stands for \<open>float.__repr__\<close> in float values.
\<close>

theorem format_as_json_keeps_keys:
  assumes "kwargs_floats_ok kwargs"
  shows "top_level_keys (format_as_json kwargs) = map fst kwargs
         \<and> (distinct (map fst kwargs) \<longrightarrow>
              (\<forall>k \<in> set (map fst kwargs).
                 count_list (top_level_keys (format_as_json kwargs)) k = 1))"
  using top_level_keys_format [OF assms] count_list_distinct [of "map fst kwargs"] by simp

theorem format_as_json_keeps_keys_witness:
  "kwargs_floats_ok
     [(''original_character_count'', PyInt 72), (''new_character_count'', PyInt 30),
      (''new_message'', PyStr ''Long message needing big cuts'')]
   \<and> top_level_keys (format_as_json
        [(''original_character_count'', PyInt 72), (''new_character_count'', PyInt 30),
         (''new_message'', PyStr ''Long message needing big cuts'')])
     = [''original_character_count'', ''new_character_count'', ''new_message'']"
proof -
  have h: "kwargs_floats_ok
     [(''original_character_count'', PyInt 72), (''new_character_count'', PyInt 30),
      (''new_message'', PyStr ''Long message needing big cuts'')]"
    by (simp add: kwargs_floats_ok_def)
  from format_as_json_keeps_keys [OF h] h show ?thesis by simp
qed

subsection \<open>Calls with the same mapping\<close>








end
